theory Spec2Isabelle
  imports Complex_Main
begin

section \<open>Weather Data System: a model of backend/main.py\<close>

text \<open>
  The backend keeps one dictionary, \<open>weather_storage\<close>, and serves three entry points:
  \<open>POST /weather\<close> (\<open>create_weather_request\<close>), \<open>GET /weather/{id}\<close>
  (\<open>get_weather_data\<close>) and the duplex channel \<open>/ws\<close> (\<open>websocket_endpoint\<close>, which
  calls \<open>generate_weather_summary\<close>). Each handler is a function of the store and of what
  the outside world answers during the call; exceptions are values of type \<open>exn\<close>.
\<close>

subsection \<open>Python values\<close>

text \<open>
  The values that \<open>json.loads\<close> and \<open>response.json()\<close> produce, and that the stored
  records hold. A \<open>dict\<close> is the list of its items in insertion order (its keys are
  distinct); a \<open>str\<close> is a list of characters. A float is the real number it denotes,
  or one of the special values that Python's JSON reader also accepts.
\<close>

datatype pyfloat = Finite real | Infinite bool | NaN

datatype pyval =
    PNone
  | PBool bool
  | PInt int
  | PFloat pyfloat
  | PStr string
  | PList "pyval list"
  | PDict "(string \<times> pyval) list"

type_synonym dict = "(string \<times> pyval) list"

text \<open>\<open>d.get(k, dflt)\<close>; \<open>d.get(k)\<close> is \<open>dict_get d k PNone\<close>.\<close>

definition dict_get :: "dict \<Rightarrow> string \<Rightarrow> pyval \<Rightarrow> pyval" where
  "dict_get d k dflt = (case map_of d k of None \<Rightarrow> dflt | Some v \<Rightarrow> v)"

text \<open>Truth value of a value in \<open>if v\<close> and \<open>not v\<close>.\<close>

fun truthy :: "pyval \<Rightarrow> bool" where
  "truthy PNone = False"
| "truthy (PBool b) = b"
| "truthy (PInt n) = (n \<noteq> 0)"
| "truthy (PFloat f) = (f \<noteq> Finite 0)"
| "truthy (PStr s) = (s \<noteq> [])"
| "truthy (PList xs) = (xs \<noteq> [])"
| "truthy (PDict d) = (d \<noteq> [])"

text \<open>\<open>v == n\<close> for an integer literal \<open>n\<close>: numbers compare by value, a bool as 0 or 1.\<close>

fun py_eq_int :: "pyval \<Rightarrow> int \<Rightarrow> bool" where
  "py_eq_int (PInt m) n = (m = n)"
| "py_eq_int (PFloat (Finite r)) n = (r = of_int n)"
| "py_eq_int (PBool b) n = ((if b then 1 else 0) = n)"
| "py_eq_int v n = False"

text \<open>
  A value inside an f-string. A \<open>str\<close> is inserted as it is; the text of any other value
  is Python's built-in formatting, which is taken as the parameter \<open>fmt\<close>.
\<close>

fun render :: "(pyval \<Rightarrow> string) \<Rightarrow> pyval \<Rightarrow> string" where
  "render fmt (PStr s) = s"
| "render fmt v = fmt v"

text \<open>\<open>s.strip()\<close>: the characters below 256 for which \<open>str.isspace\<close> holds.\<close>

definition isspace :: "char \<Rightarrow> bool" where
  "isspace c = (of_char c \<in> {9, 10, 11, 12, 13, 28, 29, 30, 31, 32, 133, 160 :: nat})"

definition strip :: "string \<Rightarrow> string" where
  "strip s = rev (dropWhile isspace (rev (dropWhile isspace s)))"

fun has_substring :: "string \<Rightarrow> string \<Rightarrow> bool" where
  "has_substring [] k = (k = [])"
| "has_substring (c # cs) k = (take (length k) (c # cs) = k \<or> has_substring cs k)"

subsection \<open>Exceptions\<close>

text \<open>
  \<open>Timeout\<close>, \<open>RequestException\<close> and \<open>Exception\<close> carry the text \<open>str(e)\<close> gives.
  \<open>HTTPException\<close> carries its status code and detail. \<open>AttributeError v\<close> is the lookup of
  \<open>.get\<close> on a value \<open>v\<close> that is no dict; \<open>TypeError\<close> is a membership test on a value
  that is no container, a string subscript on a list or str, or the hashing of a list or
  dict.
\<close>

datatype type_fault = NotIterable | BadIndex | Unhashable

datatype exn =
    HTTPException nat string
  | Timeout string
  | RequestException string
  | AttributeError pyval
  | TypeError type_fault pyval
  | Exception string

text \<open>
  \<open>str(e)\<close>. The text of an \<open>HTTPException\<close> is the web framework's, that of the built-in
  errors the interpreter's: both are the parameter \<open>describe\<close>.
\<close>

fun str_exn :: "(exn \<Rightarrow> string) \<Rightarrow> exn \<Rightarrow> string" where
  "str_exn describe (Timeout s) = s"
| "str_exn describe (RequestException s) = s"
| "str_exn describe (Exception s) = s"
| "str_exn describe e = describe e"

subsection \<open>The outside world\<close>

text \<open>
  What \<open>requests.get\<close>, \<open>raise_for_status\<close> and \<open>response.json()\<close> (lines 198 to 201)
  come to: one of the three kinds of exception the handler tells apart, or the decoded body.
\<close>

datatype provider_reply =
    TimedOut string
  | RequestFailed string
  | OtherFailure string
  | Json pyval

text \<open>
  Everything a handler reads from outside during one call:
  \<^item> \<open>getenv\<close>: \<open>os.getenv("WEATHERSTACK_API_KEY")\<close>;
  \<^item> \<open>weatherstack access_key query\<close>: the weather provider's reply;
  \<^item> \<open>uuid4\<close>: \<open>str(uuid.uuid4())\<close>, and \<open>isoformat_now\<close>: \<open>datetime.now().isoformat()\<close>;
  \<^item> \<open>genai_configure api_key\<close>: \<open>genai.configure\<close> and \<open>genai.GenerativeModel\<close>
    (lines 68 to 71), \<open>None\<close> when they return and the text of the exception otherwise;
  \<^item> \<open>generate_content api_key prompt\<close>: \<open>model.generate_content(prompt)\<close> and the
    reading of \<open>response.text\<close>, \<open>Inl\<close> the text of the exception, \<open>Inr\<close> the text;
  \<^item> \<open>format_value\<close> and \<open>describe\<close>: the parameters of \<open>render\<close> and \<open>str_exn\<close>.
\<close>

record env =
  getenv :: "string option"
  weatherstack :: "string \<Rightarrow> string \<Rightarrow> provider_reply"
  uuid4 :: string
  isoformat_now :: string
  genai_configure :: "pyval \<Rightarrow> string option"
  generate_content :: "pyval \<Rightarrow> string \<Rightarrow> string + string"
  format_value :: "pyval \<Rightarrow> string"
  describe :: "exn \<Rightarrow> string"

subsection \<open>The record store and the request model\<close>

text \<open>\<open>weather_storage: Dict[str, Dict[str, Any]]\<close>, empty when the process starts.\<close>

type_synonym store = "string \<rightharpoonup> dict"

text \<open>
  \<open>class WeatherRequest(BaseModel)\<close>: \<open>date: str\<close>, \<open>location: str\<close>,
  \<open>notes: Optional[str] = ""\<close>. A body that leaves \<open>notes\<close> out gets the declared
  default; a body that gives \<open>null\<close> gets \<open>None\<close>.
\<close>

record WeatherRequest =
  date :: string
  location :: string
  "notes" :: "string option"

datatype 'a body_field = Omitted | Supplied 'a

definition WeatherRequest_init ::
  "string \<Rightarrow> string \<Rightarrow> string option body_field \<Rightarrow> WeatherRequest" where
  "WeatherRequest_init d l n =
     \<lparr>date = d, location = l,
      notes = (case n of Omitted \<Rightarrow> Some [] | Supplied v \<Rightarrow> v)\<rparr>"

definition opt_str :: "string option \<Rightarrow> pyval" where
  "opt_str s = (case s of None \<Rightarrow> PNone | Some t \<Rightarrow> PStr t)"

subsection \<open>POST /weather\<close>

text \<open>\<open>k in v\<close> for a string \<open>k\<close> (line 204).\<close>

fun contains :: "pyval \<Rightarrow> string \<Rightarrow> exn + bool" where
  "contains (PDict d) k = Inr (map_of d k \<noteq> None)"
| "contains (PList xs) k = Inr (PStr k \<in> set xs)"
| "contains (PStr s) k = Inr (has_substring s k)"
| "contains v k = Inl (TypeError NotIterable v)"

definition config_detail :: string where
  "config_detail = ''WeatherStack API key not configured. Please set WEATHERSTACK_API_KEY environment variable or create a .env file in the backend directory.''"

definition not_found_detail :: "string \<Rightarrow> string" where
  "not_found_detail loc =
     ''Location '' @ [CHR 0x27] @ loc @ [CHR 0x27] @ '' not found. Please check the spelling and try again.''"

definition api_error_detail :: "(pyval \<Rightarrow> string) \<Rightarrow> dict \<Rightarrow> string" where
  "api_error_detail fmt error_info =
     ''Weather API error: '' @ render fmt (dict_get error_info ''info'' (PStr ''Unknown error''))"

text \<open>
  Lines 204 to 215, entered when \<open>"error" in weather_data\<close> holds: the exception raised.
  Every path raises.
\<close>

definition api_error :: "env \<Rightarrow> WeatherRequest \<Rightarrow> pyval \<Rightarrow> exn" where
  "api_error e request weather_data =
     (case weather_data of
        PDict d \<Rightarrow>
          (case dict_get d ''error'' PNone of
             PDict error_info \<Rightarrow>
               if py_eq_int (dict_get error_info ''code'' PNone) 615
               then HTTPException 400 (not_found_detail (location request))
               else HTTPException 400 (api_error_detail (format_value e) error_info)
           | v \<Rightarrow> AttributeError v)
      | v \<Rightarrow> TypeError BadIndex v)"

text \<open>Lines 217 to 231: the record written, and the identifier returned.\<close>

definition new_record :: "env \<Rightarrow> WeatherRequest \<Rightarrow> dict \<Rightarrow> dict" where
  "new_record e request weather_data =
     [(''id'', PStr (uuid4 e)),
      (''date'', PStr (date request)),
      (''location'', PStr (location request)),
      (''notes'', opt_str (notes request)),
      (''weather_data'', dict_get weather_data ''current'' (PDict [])),
      (''location_info'', dict_get weather_data ''location'' (PDict [])),
      (''created_at'', PStr (isoformat_now e))]"

definition store_record ::
  "env \<Rightarrow> WeatherRequest \<Rightarrow> pyval \<Rightarrow> store \<Rightarrow> (exn + string) \<times> store" where
  "store_record e request weather_data weather_storage =
     (case weather_data of
        PDict d \<Rightarrow>
          (Inr (uuid4 e), weather_storage(uuid4 e \<mapsto> new_record e request d))
      | v \<Rightarrow> (Inl (AttributeError v), weather_storage))"

text \<open>The body of the \<open>try\<close> (lines 182 to 231).\<close>

definition try_body ::
  "env \<Rightarrow> WeatherRequest \<Rightarrow> store \<Rightarrow> (exn + string) \<times> store" where
  "try_body e request weather_storage =
     (case getenv e of
        None \<Rightarrow> (Inl (HTTPException 500 config_detail), weather_storage)
      | Some api_key \<Rightarrow>
          if api_key = [] then (Inl (HTTPException 500 config_detail), weather_storage)
          else
            (case weatherstack e api_key (location request) of
               TimedOut s \<Rightarrow> (Inl (Timeout s), weather_storage)
             | RequestFailed s \<Rightarrow> (Inl (RequestException s), weather_storage)
             | OtherFailure s \<Rightarrow> (Inl (Exception s), weather_storage)
             | Json weather_data \<Rightarrow>
                 (case contains weather_data ''error'' of
                    Inl x \<Rightarrow> (Inl x, weather_storage)
                  | Inr True \<Rightarrow> (Inl (api_error e request weather_data), weather_storage)
                  | Inr False \<Rightarrow> store_record e request weather_data weather_storage)))"

text \<open>
  The three \<open>except\<close> clauses (lines 233 to 247), in the source's order. An
  \<open>HTTPException\<close> raised inside the \<open>try\<close> is an \<open>Exception\<close> and no
  \<open>RequestException\<close>, so the last clause takes it.
\<close>

fun except_clauses :: "(exn \<Rightarrow> string) \<Rightarrow> exn \<Rightarrow> exn" where
  "except_clauses d (Timeout s) =
     HTTPException 408 ''Weather API request timed out. Please try again.''"
| "except_clauses d (RequestException s) =
     HTTPException 500 (''Error connecting to weather service: '' @ s)"
| "except_clauses d x =
     HTTPException 500 (''Unexpected error: '' @ str_exn d x)"

definition create_weather_request ::
  "env \<Rightarrow> WeatherRequest \<Rightarrow> store \<Rightarrow> (exn + string) \<times> store" where
  "create_weather_request e request weather_storage =
     (case try_body e request weather_storage of
        (Inl x, st) \<Rightarrow> (Inl (except_clauses (describe e) x), st)
      | (Inr weather_id, st) \<Rightarrow> (Inr weather_id, st))"

subsection \<open>GET /weather/{weather_id}\<close>

definition get_weather_data :: "string \<Rightarrow> store \<Rightarrow> (exn + dict) \<times> store" where
  "get_weather_data weather_id weather_storage =
     (case weather_storage weather_id of
        None \<Rightarrow> (Inl (HTTPException 404 ''Weather data not found''), weather_storage)
      | Some r \<Rightarrow> (Inr r, weather_storage))"

subsection \<open>The summary prompt and the text-generation call\<close>

definition newline :: string where
  "newline = [CHR 0x0A]"

definition indent :: string where
  "indent = replicate 8 (CHR '' '')"

definition degree :: string where
  "degree = [CHR 0xB0]"

text \<open>\<open>{weather_info.get(k, dflt)}\<close> inside the f-string.\<close>

definition slot :: "(pyval \<Rightarrow> string) \<Rightarrow> dict \<Rightarrow> string \<Rightarrow> string \<Rightarrow> string" where
  "slot fmt weather_info k dflt = render fmt (dict_get weather_info k (PStr dflt))"

definition time_of_day :: "dict \<Rightarrow> string" where
  "time_of_day weather_info =
     (if dict_get weather_info ''is_day'' PNone = PStr ''yes'' then ''Daytime'' else ''Nighttime'')"

definition user_notes :: "(pyval \<Rightarrow> string) \<Rightarrow> pyval \<Rightarrow> string" where
  "user_notes fmt n = (if truthy n then render fmt n else ''None provided'')"

text \<open>The lines of the f-string (lines 81 to 102), without their indentation.\<close>

definition prompt_lines ::
  "(pyval \<Rightarrow> string) \<Rightarrow> pyval \<Rightarrow> pyval \<Rightarrow> pyval \<Rightarrow> dict \<Rightarrow> string list" where
  "prompt_lines fmt loc dat n wi =
     [''Generate a concise, friendly weather summary for '' @ render fmt loc @ '' on ''
        @ render fmt dat @ ''.'',
      [],
      ''Weather conditions:'',
      ''- Temperature: '' @ slot fmt wi ''temperature'' ''N/A'' @ degree @ ''F'',
      ''- Feels like: '' @ slot fmt wi ''feels_like'' ''N/A'' @ degree @ ''F'',
      ''- Conditions: '' @ slot fmt wi ''description'' ''N/A'',
      ''- Humidity: '' @ slot fmt wi ''humidity'' ''N/A'' @ ''%'',
      ''- Wind: '' @ slot fmt wi ''wind_speed'' ''N/A'' @ '' mph ''
        @ slot fmt wi ''wind_direction'' [] @ '' ('' @ slot fmt wi ''wind_degree'' ''N/A''
        @ degree @ '')'',
      ''- Visibility: '' @ slot fmt wi ''visibility'' ''N/A'' @ '' miles'',
      ''- Pressure: '' @ slot fmt wi ''pressure'' ''N/A'' @ '' mb'',
      ''- UV Index: '' @ slot fmt wi ''uv_index'' ''N/A'',
      ''- Cloud Cover: '' @ slot fmt wi ''cloudcover'' ''N/A'' @ ''%'',
      ''- Precipitation: '' @ slot fmt wi ''precip'' ''N/A'' @ '' mm'',
      ''- Time of Day: '' @ time_of_day wi,
      [],
      ''Location: '' @ slot fmt wi ''location_name'' ''N/A'' @ '', ''
        @ slot fmt wi ''region'' ''N/A'' @ '', '' @ slot fmt wi ''country'' ''N/A'',
      ''Coordinates: '' @ slot fmt wi ''lat'' ''N/A'' @ '', '' @ slot fmt wi ''lon'' ''N/A'',
      ''Timezone: '' @ slot fmt wi ''timezone'' ''N/A'',
      [],
      ''User notes: '' @ user_notes fmt n,
      [],
      ''Please provide a 3-4 sentence summary that's conversational and helpful for planning outdoor activities, including insights about the weather conditions and any notable factors.'']"

text \<open>
  The triple-quoted text: a line break, every line behind eight blanks and closed by a
  line break, and the eight blanks before the closing quotes.
\<close>

definition layout :: "string list \<Rightarrow> string" where
  "layout ls = newline @ concat (map (\<lambda>l. indent @ l @ newline) ls) @ indent"

text \<open>
  Lines 74 to 103. The first \<open>weather_info.get\<close> raises when the record's
  \<open>weather_data\<close> is no dict.
\<close>

definition build_prompt :: "(pyval \<Rightarrow> string) \<Rightarrow> dict \<Rightarrow> exn + string" where
  "build_prompt fmt weather_data =
     (let weather_info = dict_get weather_data ''weather_data'' (PDict []);
          loc = dict_get weather_data ''location'' (PStr []);
          dat = dict_get weather_data ''date'' (PStr []);
          n = dict_get weather_data ''notes'' (PStr [])
      in case weather_info of
           PDict wi \<Rightarrow> Inr (layout (prompt_lines fmt loc dat n wi))
         | v \<Rightarrow> Inl (AttributeError v))"

text \<open>What the handlers do to the outside, in order.\<close>

datatype effect =
    StoreAccess pyval
  | Configure pyval
  | GenerateContent pyval string
  | SendText dict

definition summary_failure :: "string \<Rightarrow> exn" where
  "summary_failure msg = Exception (''Error generating summary: '' @ msg)"

definition fallback_summary :: string where
  "fallback_summary = ''Unable to generate weather summary at this time.''"

definition generate_weather_summary ::
  "env \<Rightarrow> dict \<Rightarrow> pyval \<Rightarrow> effect list \<times> (exn + string)" where
  "generate_weather_summary e weather_data api_key =
     (case genai_configure e api_key of
        Some msg \<Rightarrow> ([Configure api_key], Inl (summary_failure msg))
      | None \<Rightarrow>
          (case build_prompt (format_value e) weather_data of
             Inl x \<Rightarrow> ([Configure api_key], Inl (summary_failure (str_exn (describe e) x)))
           | Inr prompt \<Rightarrow>
               (case generate_content e api_key prompt of
                  Inl msg \<Rightarrow>
                    ([Configure api_key, GenerateContent api_key prompt],
                     Inl (summary_failure msg))
                | Inr response_text \<Rightarrow>
                    ([Configure api_key, GenerateContent api_key prompt],
                     Inr (if response_text \<noteq> [] then strip response_text
                          else fallback_summary)))))"

subsection \<open>The channel /ws\<close>

text \<open>
  One turn of \<open>await websocket.receive_text()\<close> and \<open>json.loads(data)\<close>: the client has
  gone, the receive fails otherwise, the text is no JSON, or it is the JSON value given.
  Sending is taken to succeed.
\<close>

datatype ws_event =
    WebSocketDisconnect
  | ReceiveFailed string
  | InvalidJson string
  | Message pyval

text \<open>
  Where the handler stands after the events: inside the loop awaiting the next text, returned
  after \<open>manager.disconnect\<close>, or left by an exception nothing caught.
\<close>

datatype session = Awaiting | Disconnected | Raised exn

definition error_message :: "string \<Rightarrow> dict" where
  "error_message msg = [(''type'', PStr ''summary_error''), (''error'', PStr msg)]"

definition result_message :: "string \<Rightarrow> pyval \<Rightarrow> dict" where
  "result_message summary weather_id =
     [(''type'', PStr ''summary_result''), (''summary'', PStr summary),
      (''weather_id'', weather_id)]"

text \<open>
  \<open>weather_id not in weather_storage\<close> and \<open>weather_storage[weather_id]\<close>: the keys are
  strings, a list or a dict cannot be hashed, every other value is no key of the store.
\<close>

fun lookup :: "pyval \<Rightarrow> store \<Rightarrow> exn + dict option" where
  "lookup (PStr k) weather_storage = Inr (weather_storage k)"
| "lookup (PList xs) weather_storage = Inl (TypeError Unhashable (PList xs))"
| "lookup (PDict d) weather_storage = Inl (TypeError Unhashable (PDict d))"
| "lookup v weather_storage = Inr None"

text \<open>
  The body of the loop for a decoded message (lines 124 to 167): what it does, and the
  exception that leaves it, if any.
\<close>

definition on_message :: "env \<Rightarrow> store \<Rightarrow> pyval \<Rightarrow> effect list \<times> exn option" where
  "on_message e weather_storage message =
     (case message of
        PDict m \<Rightarrow>
          if dict_get m ''type'' PNone = PStr ''generate_summary'' then
            (let weather_id = dict_get m ''weather_id'' PNone;
                 api_key = dict_get m ''api_key'' PNone
             in if \<not> truthy api_key
                then ([SendText (error_message ''Gemini API key is required'')], None)
                else
                  (case lookup weather_id weather_storage of
                     Inl x \<Rightarrow> ([StoreAccess weather_id], Some x)
                   | Inr None \<Rightarrow>
                       ([StoreAccess weather_id,
                         SendText (error_message ''Weather data not found'')], None)
                   | Inr (Some weather_data) \<Rightarrow>
                       (case generate_weather_summary e weather_data api_key of
                          (effs, Inr summary) \<Rightarrow>
                            ([StoreAccess weather_id, StoreAccess weather_id] @ effs
                               @ [SendText (result_message summary weather_id)], None)
                        | (effs, Inl x) \<Rightarrow>
                            ([StoreAccess weather_id, StoreAccess weather_id] @ effs
                               @ [SendText (error_message (str_exn (describe e) x))], None))))
          else ([], None)
      | v \<Rightarrow> ([], Some (AttributeError v)))"

text \<open>The \<open>while True\<close> loop of \<open>websocket_endpoint\<close>, over the events that arrive.\<close>

fun websocket_endpoint :: "env \<Rightarrow> store \<Rightarrow> ws_event list \<Rightarrow> effect list \<times> session" where
  "websocket_endpoint e weather_storage [] = ([], Awaiting)"
| "websocket_endpoint e weather_storage (WebSocketDisconnect # evs) = ([], Disconnected)"
| "websocket_endpoint e weather_storage (ReceiveFailed s # evs) = ([], Raised (Exception s))"
| "websocket_endpoint e weather_storage (InvalidJson s # evs) = ([], Raised (Exception s))"
| "websocket_endpoint e weather_storage (Message m # evs) =
     (case on_message e weather_storage m of
        (effs, Some x) \<Rightarrow> (effs, Raised x)
      | (effs, None) \<Rightarrow>
          (case websocket_endpoint e weather_storage evs of
             (effs', s) \<Rightarrow> (effs @ effs', s)))"

text \<open>The messages sent, among the effects.\<close>

fun sent :: "effect list \<Rightarrow> dict list" where
  "sent [] = []"
| "sent (SendText d # effs) = d # sent effs"
| "sent (x # effs) = sent effs"

subsection \<open>What a slot of the prompt shows\<close>

text \<open>
  The text a slot is meant to show for the key \<open>k\<close> of the weather data: the value when
  the key is there, and the text \<open>missing\<close> when it is not.
\<close>

definition shown :: "(pyval \<Rightarrow> string) \<Rightarrow> dict \<Rightarrow> string \<Rightarrow> string \<Rightarrow> string" where
  "shown fmt wi k missing = (case map_of wi k of None \<Rightarrow> missing | Some v \<Rightarrow> render fmt v)"

subsection \<open>The life of the process\<close>

text \<open>
  The HTTP requests the process serves, from its start, one after the other. Each creation
  comes with what the outside world answers during that call. The channel only reads the
  store, so its traffic leaves every run as it is.
\<close>

datatype request = Create env WeatherRequest | Lookup string

datatype response = Created string | Found dict | Failed exn

fun serve :: "request \<Rightarrow> store \<Rightarrow> response \<times> store" where
  "serve (Create e r) weather_storage =
     (case create_weather_request e r weather_storage of
        (Inl x, st) \<Rightarrow> (Failed x, st)
      | (Inr weather_id, st) \<Rightarrow> (Created weather_id, st))"
| "serve (Lookup weather_id) weather_storage =
     (case get_weather_data weather_id weather_storage of
        (Inl x, st) \<Rightarrow> (Failed x, st)
      | (Inr r, st) \<Rightarrow> (Found r, st))"

fun run :: "request list \<Rightarrow> store \<Rightarrow> response list \<times> store" where
  "run [] weather_storage = ([], weather_storage)"
| "run (r # rs) weather_storage =
     (case serve r weather_storage of
        (a, st) \<Rightarrow> (case run rs st of (as, st') \<Rightarrow> (a # as, st')))"

text \<open>The identifiers the successful creations returned, in order.\<close>

fun issued :: "response list \<Rightarrow> string list" where
  "issued [] = []"
| "issued (Created weather_id # as) = weather_id # issued as"
| "issued (a # as) = issued as"

text \<open>What \<open>uuid.uuid4()\<close> has in hand for each creation of a run, in order.\<close>

fun draws :: "request list \<Rightarrow> string list" where
  "draws [] = []"
| "draws (Create e r # rs) = uuid4 e # draws rs"
| "draws (Lookup k # rs) = draws rs"


subsection \<open>Messages the channel answers\<close>

text \<open>
  A decoded message that is a JSON object and, when it asks for a summary with an
  \<open>api_key\<close> that counts as given, names the record by a value that can be hashed.
\<close>

fun hashable :: "pyval \<Rightarrow> bool" where
  "hashable (PList xs) = False"
| "hashable (PDict d) = False"
| "hashable v = True"

definition is_summary_request :: "pyval \<Rightarrow> bool" where
  "is_summary_request message =
     (case message of
        PDict m \<Rightarrow> dict_get m ''type'' PNone = PStr ''generate_summary''
      | v \<Rightarrow> False)"

definition answerable :: "pyval \<Rightarrow> bool" where
  "answerable message =
     (case message of
        PDict m \<Rightarrow>
          (if is_summary_request message \<and> truthy (dict_get m ''api_key'' PNone)
           then hashable (dict_get m ''weather_id'' PNone) else True)
      | v \<Rightarrow> False)"

subsection \<open>A worked scenario\<close>

text \<open>
  The scenario of the specification: a request for Paris, a provider that reports 70 degrees
  and sun, and a text generator that answers. The formatter below writes \<open>None\<close>, booleans
  and integers as Python does; floats and containers do not occur in the scenario.
\<close>

fun show_nat :: "nat \<Rightarrow> string" where
  "show_nat n =
     (if n < 10 then [''0123456789'' ! n]
      else show_nat (n div 10) @ [''0123456789'' ! (n mod 10)])"

declare show_nat.simps [simp del]

fun scenario_format :: "pyval \<Rightarrow> string" where
  "scenario_format PNone = ''None''"
| "scenario_format (PBool b) = (if b then ''True'' else ''False'')"
| "scenario_format (PInt i) = (if i < 0 then ''-'' @ show_nat (nat (- i)) else show_nat (nat i))"
| "scenario_format (PStr s) = s"
| "scenario_format v = []"

fun scenario_describe :: "exn \<Rightarrow> string" where
  "scenario_describe (HTTPException code detail) = show_nat code @ '': '' @ detail"
| "scenario_describe (AttributeError v) = ''AttributeError''"
| "scenario_describe (TypeError f v) = ''TypeError''"
| "scenario_describe (Timeout s) = s"
| "scenario_describe (RequestException s) = s"
| "scenario_describe (Exception s) = s"

definition paris_reply :: pyval where
  "paris_reply =
     PDict [(''current'', PDict [(''temperature'', PInt 70), (''description'', PStr ''Sunny'')]),
            (''location'', PDict [(''name'', PStr ''Paris''), (''country'', PStr ''France'')])]"

definition reply_of :: "pyval \<Rightarrow> string \<Rightarrow> string \<Rightarrow> provider_reply" where
  "reply_of v access_key query = Json v"

definition configured :: "pyval \<Rightarrow> string option" where
  "configured api_key = None"

definition answers :: "string + string \<Rightarrow> pyval \<Rightarrow> string \<Rightarrow> string + string" where
  "answers a api_key prompt = a"

definition paris_env :: env where
  "paris_env =
     \<lparr>getenv = Some ''secret'',
      weatherstack = reply_of paris_reply,
      uuid4 = ''0b0e8f8e-1'',
      isoformat_now = ''2024-06-01T09:00:00'',
      genai_configure = configured,
      generate_content = answers (Inr ''Sunny and mild in Paris. ''),
      format_value = scenario_format,
      describe = scenario_describe\<rparr>"

definition paris_request :: WeatherRequest where
  "paris_request = \<lparr>date = ''2024-06-01'', location = ''Paris'', notes = Some ''picnic''\<rparr>"

definition paris_store :: store where
  "paris_store = snd (create_weather_request paris_env paris_request Map.empty)"

definition summary_request :: pyval where
  "summary_request =
     PDict [(''type'', PStr ''generate_summary''), (''weather_id'', PStr ''0b0e8f8e-1''),
            (''api_key'', PStr ''gemini-key'')]"

text \<open>The provider's answer for a place it does not know.\<close>

definition unknown_reply :: pyval where
  "unknown_reply =
     PDict [(''success'', PBool False),
            (''error'', PDict [(''code'', PInt 615), (''type'', PStr ''request_failed''),
                               (''info'', PStr ''Your API request failed.'')])]"

definition atlantis_request :: WeatherRequest where
  "atlantis_request = \<lparr>date = ''2024-06-01'', location = ''Atlantis'', notes = Some []\<rparr>"

definition atlantis_env :: env where
  "atlantis_env = paris_env\<lparr>weatherstack := reply_of unknown_reply\<rparr>"

text \<open>The same world with another draw of \<open>uuid4\<close>, for a second creation.\<close>

definition second_env :: env where
  "second_env = paris_env\<lparr>uuid4 := ''0b0e8f8e-2''\<rparr>"

definition twin_creations :: "request list" where
  "twin_creations = [Create paris_env paris_request, Create second_env paris_request]"



text \<open>A text generator that returns no text, and one that raises.\<close>

definition silent_env :: env where
  "silent_env = paris_env\<lparr>generate_content := answers (Inr [])\<rparr>"

definition failing_env :: env where
  "failing_env = paris_env\<lparr>generate_content := answers (Inl ''429 Resource has been exhausted'')\<rparr>"

text \<open>The record the Paris request leaves in the store.\<close>

definition paris_record :: dict where
  "paris_record =
     [(''id'', PStr ''0b0e8f8e-1''),
      (''date'', PStr ''2024-06-01''),
      (''location'', PStr ''Paris''),
      (''notes'', PStr ''picnic''),
      (''weather_data'', PDict [(''temperature'', PInt 70), (''description'', PStr ''Sunny'')]),
      (''location_info'', PDict [(''name'', PStr ''Paris''), (''country'', PStr ''France'')]),
      (''created_at'', PStr ''2024-06-01T09:00:00'')]"

text \<open>
  The record stored when the provider's reply has no \<open>current\<close> section: line 226 puts the
  empty dict in its place.
\<close>

definition bare_record :: dict where
  "bare_record =
     [(''id'', PStr ''0b0e8f8e-1''),
      (''date'', PStr ''2024-06-01''),
      (''location'', PStr ''Paris''),
      (''notes'', PStr ''picnic''),
      (''weather_data'', PDict []),
      (''location_info'', PDict []),
      (''created_at'', PStr ''2024-06-01T09:00:00'')]"

text \<open>The record stored when the provider's reply has \<open>"current": null\<close>.\<close>

definition null_record :: dict where
  "null_record =
     [(''id'', PStr ''0b0e8f8e-1''),
      (''date'', PStr ''2024-06-01''),
      (''location'', PStr ''Paris''),
      (''notes'', PStr ''picnic''),
      (''weather_data'', PNone),
      (''location_info'', PDict []),
      (''created_at'', PStr ''2024-06-01T09:00:00'')]"

text \<open>A summary request without \<open>api_key\<close>, and a message of another kind.\<close>

definition keyless_request :: pyval where
  "keyless_request =
     PDict [(''type'', PStr ''generate_summary''), (''weather_id'', PStr ''0b0e8f8e-1'')]"

text \<open>A summary request that names the record by a list.\<close>

definition unhashable_request :: pyval where
  "unhashable_request =
     PDict [(''type'', PStr ''generate_summary''), (''weather_id'', PList []),
            (''api_key'', PStr ''gemini-key'')]"

definition ping :: pyval where
  "ping = PDict [(''type'', PStr ''ping'')]"

section \<open>Properties\<close>

subsection \<open>The scenario, evaluated\<close>

lemma paris_created:
  "create_weather_request paris_env paris_request Map.empty =
     (Inr ''0b0e8f8e-1'', [''0b0e8f8e-1'' \<mapsto> paris_record])"
  by (simp add: create_weather_request_def try_body_def store_record_def new_record_def
      paris_env_def paris_request_def paris_reply_def reply_of_def paris_record_def
      dict_get_def opt_str_def)

lemma paris_store_eq: "paris_store = [''0b0e8f8e-1'' \<mapsto> paris_record]"
  by (simp add: paris_store_def paris_created)

text \<open>How the two records without weather data come into the store.\<close>

lemma bare_record_stored:
  "create_weather_request (paris_env\<lparr>weatherstack := reply_of (PDict [])\<rparr>) paris_request
     Map.empty = (Inr ''0b0e8f8e-1'', [''0b0e8f8e-1'' \<mapsto> bare_record])"
  by (simp add: create_weather_request_def try_body_def store_record_def new_record_def
      paris_env_def paris_request_def reply_of_def bare_record_def dict_get_def opt_str_def)

lemma null_record_stored:
  "create_weather_request
     (paris_env\<lparr>weatherstack := reply_of (PDict [(''current'', PNone)])\<rparr>) paris_request
     Map.empty = (Inr ''0b0e8f8e-1'', [''0b0e8f8e-1'' \<mapsto> null_record])"
  by (simp add: create_weather_request_def try_body_def store_record_def new_record_def
      paris_env_def paris_request_def reply_of_def null_record_def dict_get_def opt_str_def)

subsection \<open>Creation and the store\<close>

text \<open>
  A creation either returns the identifier drawn and adds one record under it, or fails
  and leaves the store as it was.
\<close>

lemma create_ok:
  "create_weather_request e r st = (Inr wid, st') \<Longrightarrow>
     wid = uuid4 e \<and> (\<exists>d. st' = st(wid \<mapsto> new_record e r d))"
  by (auto simp: create_weather_request_def try_body_def store_record_def
      split: option.splits if_splits provider_reply.splits sum.splits bool.splits pyval.splits)

lemma create_fail:
  "create_weather_request e r st = (Inl x, st') \<Longrightarrow> st' = st"
  by (auto simp: create_weather_request_def try_body_def store_record_def
      split: option.splits if_splits provider_reply.splits sum.splits bool.splits pyval.splits)

lemma get_weather_data_store: "snd (get_weather_data k st) = st"
  by (simp add: get_weather_data_def split: option.splits)

lemma serve_keeps:
  assumes "st k = Some r" and "k \<notin> set (draws [q])"
  shows "snd (serve q st) k = Some r"
proof (cases q)
  case (Create e w)
  obtain res st' where c: "create_weather_request e w st = (res, st')"
    by (cases "create_weather_request e w st")
  show ?thesis
  proof (cases res)
    case (Inl x)
    with c create_fail[of e w st x st'] assms Create show ?thesis by simp
  next
    case (Inr wid)
    with c create_ok[of e w st wid st'] assms Create show ?thesis by auto
  qed
next
  case (Lookup k')
  with assms show ?thesis
    by (simp add: get_weather_data_def split: option.splits)
qed

lemma draws_append: "draws (a @ b) = draws a @ draws b"
  by (induction a rule: draws.induct) simp_all

lemma run_Cons:
  "snd (run (q # reqs) st) = snd (run reqs (snd (serve q st)))"
  "fst (run (q # reqs) st) = fst (serve q st) # fst (run reqs (snd (serve q st)))"
  by (simp_all split: prod.splits)

lemma run_keeps:
  "st k = Some r \<Longrightarrow> k \<notin> set (draws reqs) \<Longrightarrow> snd (run reqs st) k = Some r"
proof (induction reqs arbitrary: st)
  case Nil
  then show ?case by simp
next
  case (Cons q reqs)
  have d: "draws (q # reqs) = draws [q] @ draws reqs"
    using draws_append[of "[q]" reqs] by simp
  from Cons.prems d have k1: "k \<notin> set (draws [q])" and k2: "k \<notin> set (draws reqs)" by auto
  have "snd (serve q st) k = Some r"
    using serve_keeps[of st k r q] Cons.prems(1) k1 by simp
  with Cons.IH[of "snd (serve q st)"] k2
  have "snd (run reqs (snd (serve q st))) k = Some r" by simp
  then show ?case by (simp only: run_Cons)
qed

lemma serve_dom:
  "dom (snd (serve q st)) = dom st \<union> set (issued [fst (serve q st)])"
proof (cases q)
  case (Create e w)
  obtain res st' where c: "create_weather_request e w st = (res, st')"
    by (cases "create_weather_request e w st")
  show ?thesis
  proof (cases res)
    case (Inl x)
    with c create_fail[of e w st x st'] Create show ?thesis by simp
  next
    case (Inr wid)
    with c create_ok[of e w st wid st'] Create show ?thesis by auto
  qed
next
  case (Lookup k')
  then show ?thesis
    by (simp add: get_weather_data_def split: option.splits)
qed

lemma issued_Cons: "issued (a # as) = issued [a] @ issued as"
  by (cases a) simp_all

lemma run_dom:
  "dom (snd (run reqs st)) = dom st \<union> set (issued (fst (run reqs st)))"
proof (induction reqs arbitrary: st)
  case Nil
  then show ?case by simp
next
  case (Cons q reqs)
  obtain a st1 where s: "serve q st = (a, st1)" by (cases "serve q st")
  obtain as st2 where r: "run reqs st1 = (as, st2)" by (cases "run reqs st1")
  have "dom st2 = dom st1 \<union> set (issued as)" using Cons.IH[of st1] r by simp
  moreover have "dom st1 = dom st \<union> set (issued [a])" using serve_dom[of q st] s by simp
  ultimately show ?case using s r issued_Cons[of a as] by auto
qed


lemma new_record_fields:
  "map_of (new_record e r d) ''id'' = Some (PStr (uuid4 e))"
  "map_of (new_record e r d) ''date'' = Some (PStr (date r))"
  "map_of (new_record e r d) ''location'' = Some (PStr (location r))"
  "map_of (new_record e r d) ''notes'' = Some (opt_str (notes r))"
  by (simp_all add: new_record_def)



text \<open>
  Claim C1. A creation whose provider reply carries error code 615 raises
  \<open>HTTPException(status_code=400)\<close> with the detail naming the location (line 207), but
  the raise stands inside the \<open>try\<close>, and the clause \<open>except Exception\<close> (line 243)
  takes it: for every such request the handler answers with status 500, the detail being
  \<open>Unexpected error:\<close> followed by the text of the 400 exception. The store is left
  as it was.
\<close>

theorem error_615_is_rewrapped_as_500:
  assumes "getenv e = Some key" and "key \<noteq> []"
    and "weatherstack e key (location request) = Json (PDict d)"
    and "map_of d ''error'' = Some (PDict error_info)"
    and "py_eq_int (dict_get error_info ''code'' PNone) 615"
  shows "create_weather_request e request st =
     (Inl (HTTPException 500 (''Unexpected error: '' @
        describe e (HTTPException 400 (not_found_detail (location request))))), st)"
  using assms
  by (simp add: create_weather_request_def try_body_def api_error_def dict_get_def)

text \<open>
  The request for Atlantis: the provider answers with code 615, the handler with status 500.
\<close>

theorem error_615_is_rewrapped_as_500_witness:
  "getenv atlantis_env = Some ''secret''
   \<and> weatherstack atlantis_env ''secret'' (location atlantis_request) = Json unknown_reply
   \<and> create_weather_request atlantis_env atlantis_request Map.empty =
     (Inl (HTTPException 500
        (''Unexpected error: 400: Location '' @ [CHR 0x27] @ ''Atlantis'' @ [CHR 0x27]
           @ '' not found. Please check the spelling and try again.'')), Map.empty)"
proof -
  have s: "show_nat 400 = ''400''" by (simp add: show_nat.simps)
  show ?thesis
    using error_615_is_rewrapped_as_500[of atlantis_env "''secret''" atlantis_request
        "[(''success'', PBool False),
            (''error'', PDict [(''code'', PInt 615), (''type'', PStr ''request_failed''),
                               (''info'', PStr ''Your API request failed.'')])]"
        "[(''code'', PInt 615), (''type'', PStr ''request_failed''),
                               (''info'', PStr ''Your API request failed.'')]" Map.empty] s
    by (simp add: atlantis_env_def paris_env_def reply_of_def unknown_reply_def
        atlantis_request_def dict_get_def not_found_detail_def)
qed

text \<open>
  Claim C2. After a successful creation, a lookup with the identifier returned gives a
  record whose \<open>date\<close>, \<open>location\<close> and \<open>notes\<close> are those of the request, at
  once and after any further requests that draw other identifiers.
\<close>

theorem lookup_after_create:
  assumes "create_weather_request e request st = (Inr weather_id, st')"
    and "weather_id \<notin> set (draws reqs)"
  shows "\<exists>r. get_weather_data weather_id (snd (run reqs st')) = (Inr r, snd (run reqs st'))
     \<and> map_of r ''date'' = Some (PStr (date request))
     \<and> map_of r ''location'' = Some (PStr (location request))
     \<and> map_of r ''notes'' = Some (opt_str (notes request))"
proof -
  from create_ok[OF assms(1)] obtain d where
    w: "weather_id = uuid4 e" and s: "st' = st(weather_id \<mapsto> new_record e request d)" by auto
  have "st' weather_id = Some (new_record e request d)" using s by simp
  with run_keeps[of st' weather_id "new_record e request d" reqs] assms(2)
  have "get_weather_data weather_id (snd (run reqs st')) =
      (Inr (new_record e request d), snd (run reqs st'))"
    by (simp add: get_weather_data_def)
  then show ?thesis by (auto simp: new_record_fields)
qed

text \<open>
  The Paris request, looked up after a lookup and a second creation.
\<close>

theorem lookup_after_create_witness:
  "create_weather_request paris_env paris_request Map.empty =
      (Inr ''0b0e8f8e-1'', [''0b0e8f8e-1'' \<mapsto> paris_record])
   \<and> ''0b0e8f8e-1'' \<notin> set (draws [Lookup ''0b0e8f8e-7'', Create second_env paris_request])
   \<and> (\<exists>r. get_weather_data ''0b0e8f8e-1''
          (snd (run [Lookup ''0b0e8f8e-7'', Create second_env paris_request]
             [''0b0e8f8e-1'' \<mapsto> paris_record])) =
        (Inr r, snd (run [Lookup ''0b0e8f8e-7'', Create second_env paris_request]
             [''0b0e8f8e-1'' \<mapsto> paris_record]))
      \<and> map_of r ''date'' = Some (PStr ''2024-06-01'')
      \<and> map_of r ''location'' = Some (PStr ''Paris'')
      \<and> map_of r ''notes'' = Some (PStr ''picnic''))"
proof -
  have d: "''0b0e8f8e-1'' \<notin> set (draws [Lookup ''0b0e8f8e-7'', Create second_env paris_request])"
    by (simp add: second_env_def paris_env_def)
  show ?thesis
    using lookup_after_create[OF paris_created d] paris_created d
    by (simp add: paris_request_def opt_str_def)
qed

text \<open>
  Claim C10. A request that leaves \<open>notes\<close> out gets the declared default, so the
  record stored has the empty string under \<open>notes\<close>, and the lookup returns that record.
\<close>

theorem omitted_notes_stored_empty:
  assumes "create_weather_request e (WeatherRequest_init d l Omitted) st = (Inr weather_id, st')"
  shows "\<exists>r. st' weather_id = Some r \<and> map_of r ''notes'' = Some (PStr [])
     \<and> get_weather_data weather_id st' = (Inr r, st')"
proof -
  from create_ok[OF assms] obtain x where
    s: "st' = st(weather_id \<mapsto> new_record e (WeatherRequest_init d l Omitted) x)" by auto
  then show ?thesis
    by (simp add: get_weather_data_def new_record_def WeatherRequest_init_def opt_str_def)
qed

text \<open>
  The Paris request without notes.
\<close>

theorem omitted_notes_stored_empty_witness:
  "\<exists>st'. create_weather_request paris_env (WeatherRequest_init ''2024-06-01'' ''Paris'' Omitted)
        Map.empty = (Inr ''0b0e8f8e-1'', st')
     \<and> (\<exists>r. st' ''0b0e8f8e-1'' = Some r \<and> map_of r ''notes'' = Some (PStr [])
          \<and> get_weather_data ''0b0e8f8e-1'' st' = (Inr r, st'))"
proof -
  obtain st' where c: "create_weather_request paris_env
      (WeatherRequest_init ''2024-06-01'' ''Paris'' Omitted) Map.empty = (Inr ''0b0e8f8e-1'', st')"
    by (simp add: create_weather_request_def try_body_def store_record_def
      paris_env_def paris_reply_def reply_of_def WeatherRequest_init_def)
  from omitted_notes_stored_empty[OF c] c show ?thesis by blast
qed










text \<open>
  Claim C8. A lookup with an identifier that no successful creation of the run returned
  raises \<open>HTTPException(status_code=404)\<close> and leaves the store as it was.
\<close>

theorem lookup_unissued_not_found:
  assumes "weather_id \<notin> set (issued (fst (run reqs Map.empty)))"
  shows "get_weather_data weather_id (snd (run reqs Map.empty)) =
     (Inl (HTTPException 404 ''Weather data not found''), snd (run reqs Map.empty))"
proof -
  have "weather_id \<notin> dom (snd (run reqs Map.empty))"
    using assms run_dom[of reqs Map.empty] by simp
  then have "snd (run reqs Map.empty) weather_id = None" by auto
  then show ?thesis by (simp add: get_weather_data_def)
qed

text \<open>
  An identifier that the two creations did not return.
\<close>

theorem lookup_unissued_not_found_witness:
  "''0b0e8f8e-9'' \<notin> set (issued (fst (run twin_creations Map.empty)))
   \<and> get_weather_data ''0b0e8f8e-9'' (snd (run twin_creations Map.empty)) =
     (Inl (HTTPException 404 ''Weather data not found''), snd (run twin_creations Map.empty))"
proof -
  have i: "issued (fst (run twin_creations Map.empty)) = [''0b0e8f8e-1'', ''0b0e8f8e-2'']"
    by (simp add: twin_creations_def paris_created create_weather_request_def try_body_def
        store_record_def second_env_def paris_env_def paris_request_def paris_reply_def
        reply_of_def)
  then have n: "''0b0e8f8e-9'' \<notin> set (issued (fst (run twin_creations Map.empty)))" by simp
  show ?thesis using lookup_unissued_not_found[OF n] n by simp
qed

subsection \<open>The summary prompt\<close>

lemma slot_shown: "slot fmt wi k missing = shown fmt wi k missing"
  by (simp add: slot_def shown_def dict_get_def split: option.splits)

lemma time_of_day_flag:
  "time_of_day wi = (if map_of wi ''is_day'' = Some (PStr ''yes'') then ''Daytime'' else ''Nighttime'')"
  by (auto simp: time_of_day_def dict_get_def split: option.splits)

text \<open>
  Claim C6, amended. For a record whose \<open>weather_data\<close> is a dict the prompt is the
  fixed template, filled from the record alone. In the lines of the weather conditions a
  missing temperature, feels-like, description, humidity, wind speed, wind degree,
  visibility, pressure, UV index, cloud cover or precipitation shows as \<open>N/A\<close>; a missing
  wind direction shows as the empty text; the time of day shows as \<open>Daytime\<close> when
  \<open>is_day\<close> is \<open>yes\<close> and as \<open>Nighttime\<close> otherwise.
\<close>

theorem summary_prompt_template:
  assumes "map_of r ''weather_data'' = Some (PDict wi)"
  shows "\<exists>ls. build_prompt fmt r = Inr (layout ls) \<and> length ls = 22
     \<and> ls ! 3 = ''- Temperature: '' @ shown fmt wi ''temperature'' ''N/A'' @ degree @ ''F''
     \<and> ls ! 4 = ''- Feels like: '' @ shown fmt wi ''feels_like'' ''N/A'' @ degree @ ''F''
     \<and> ls ! 5 = ''- Conditions: '' @ shown fmt wi ''description'' ''N/A''
     \<and> ls ! 6 = ''- Humidity: '' @ shown fmt wi ''humidity'' ''N/A'' @ ''%''
     \<and> ls ! 7 = ''- Wind: '' @ shown fmt wi ''wind_speed'' ''N/A'' @ '' mph ''
           @ shown fmt wi ''wind_direction'' [] @ '' ('' @ shown fmt wi ''wind_degree'' ''N/A''
           @ degree @ '')''
     \<and> ls ! 8 = ''- Visibility: '' @ shown fmt wi ''visibility'' ''N/A'' @ '' miles''
     \<and> ls ! 9 = ''- Pressure: '' @ shown fmt wi ''pressure'' ''N/A'' @ '' mb''
     \<and> ls ! 10 = ''- UV Index: '' @ shown fmt wi ''uv_index'' ''N/A''
     \<and> ls ! 11 = ''- Cloud Cover: '' @ shown fmt wi ''cloudcover'' ''N/A'' @ ''%''
     \<and> ls ! 12 = ''- Precipitation: '' @ shown fmt wi ''precip'' ''N/A'' @ '' mm''
     \<and> ls ! 13 = ''- Time of Day: ''
           @ (if map_of wi ''is_day'' = Some (PStr ''yes'') then ''Daytime'' else ''Nighttime'')"
proof -
  let ?ls = "prompt_lines fmt (dict_get r ''location'' (PStr [])) (dict_get r ''date'' (PStr []))
      (dict_get r ''notes'' (PStr [])) wi"
  have b: "build_prompt fmt r = Inr (layout ?ls)"
    using assms by (simp add: build_prompt_def dict_get_def)
  have l: "length ?ls = 22" by (simp add: prompt_lines_def)
  have "?ls ! 3 = ''- Temperature: '' @ shown fmt wi ''temperature'' ''N/A'' @ degree @ ''F''"
    and "?ls ! 4 = ''- Feels like: '' @ shown fmt wi ''feels_like'' ''N/A'' @ degree @ ''F''"
    and "?ls ! 5 = ''- Conditions: '' @ shown fmt wi ''description'' ''N/A''"
    and "?ls ! 6 = ''- Humidity: '' @ shown fmt wi ''humidity'' ''N/A'' @ ''%''"
    and "?ls ! 7 = ''- Wind: '' @ shown fmt wi ''wind_speed'' ''N/A'' @ '' mph ''
           @ shown fmt wi ''wind_direction'' [] @ '' ('' @ shown fmt wi ''wind_degree'' ''N/A''
           @ degree @ '')''"
    and "?ls ! 8 = ''- Visibility: '' @ shown fmt wi ''visibility'' ''N/A'' @ '' miles''"
    and "?ls ! 9 = ''- Pressure: '' @ shown fmt wi ''pressure'' ''N/A'' @ '' mb''"
    and "?ls ! 10 = ''- UV Index: '' @ shown fmt wi ''uv_index'' ''N/A''"
    and "?ls ! 11 = ''- Cloud Cover: '' @ shown fmt wi ''cloudcover'' ''N/A'' @ ''%''"
    and "?ls ! 12 = ''- Precipitation: '' @ shown fmt wi ''precip'' ''N/A'' @ '' mm''"
    and "?ls ! 13 = ''- Time of Day: ''
           @ (if map_of wi ''is_day'' = Some (PStr ''yes'') then ''Daytime'' else ''Nighttime'')"
    by (simp_all add: prompt_lines_def slot_shown time_of_day_flag)
  with b l show ?thesis by blast
qed

text \<open>
  The Paris record: the temperature and the description are there, the rest is missing.
\<close>

theorem summary_prompt_template_witness:
  "map_of paris_record ''weather_data'' =
      Some (PDict [(''temperature'', PInt 70), (''description'', PStr ''Sunny'')])
   \<and> (\<exists>ls. build_prompt scenario_format paris_record = Inr (layout ls)
       \<and> ls ! 3 = ''- Temperature: 70'' @ degree @ ''F''
       \<and> ls ! 5 = ''- Conditions: Sunny''
       \<and> ls ! 6 = ''- Humidity: N/A%''
       \<and> ls ! 7 = ''- Wind: N/A mph  (N/A'' @ degree @ '')''
       \<and> ls ! 13 = ''- Time of Day: Nighttime'')"
proof -
  have h: "map_of paris_record ''weather_data'' =
      Some (PDict [(''temperature'', PInt 70), (''description'', PStr ''Sunny'')])"
    by (simp add: paris_record_def)
  have s: "show_nat 70 = ''70''" by (simp add: show_nat.simps)
  from summary_prompt_template[OF h, of scenario_format] obtain ls where
    "build_prompt scenario_format paris_record = Inr (layout ls)"
    "ls ! 3 = ''- Temperature: '' @ shown scenario_format [(''temperature'', PInt 70), (''description'', PStr ''Sunny'')] ''temperature'' ''N/A'' @ degree @ ''F''"
    "ls ! 5 = ''- Conditions: '' @ shown scenario_format [(''temperature'', PInt 70), (''description'', PStr ''Sunny'')] ''description'' ''N/A''"
    "ls ! 6 = ''- Humidity: '' @ shown scenario_format [(''temperature'', PInt 70), (''description'', PStr ''Sunny'')] ''humidity'' ''N/A'' @ ''%''"
    "ls ! 7 = ''- Wind: '' @ shown scenario_format [(''temperature'', PInt 70), (''description'', PStr ''Sunny'')] ''wind_speed'' ''N/A'' @ '' mph ''
           @ shown scenario_format [(''temperature'', PInt 70), (''description'', PStr ''Sunny'')] ''wind_direction'' [] @ '' ('' @ shown scenario_format [(''temperature'', PInt 70), (''description'', PStr ''Sunny'')] ''wind_degree'' ''N/A''
           @ degree @ '')''"
    "ls ! 13 = ''- Time of Day: ''
           @ (if map_of [(''temperature'', PInt 70), (''description'', PStr ''Sunny'')] ''is_day'' = Some (PStr ''yes'') then ''Daytime'' else ''Nighttime'')"
    by blast
  then show ?thesis using h s by (intro conjI exI[of _ ls]) (simp_all add: shown_def)
qed

text \<open>
  Claim C6 as stated fails. With empty weather data the wind direction is missing and the
  line of the wind shows nothing in its place, where the claim has \<open>N/A\<close>; and a record
  whose \<open>weather_data\<close> is \<open>None\<close> gets no prompt at all.
\<close>

theorem wind_direction_counterexample:
  "build_prompt scenario_format null_record = Inl (AttributeError PNone)
   \<and> map_of bare_record ''weather_data'' = Some (PDict [])
   \<and> map_of [] ''wind_direction'' = (None :: pyval option)
   \<and> ''- Wind: N/A mph  (N/A'' @ degree @ '')'' \<noteq> ''- Wind: N/A mph N/A (N/A'' @ degree @ '')''
   \<and> build_prompt scenario_format bare_record =
       Inr (layout
         [''Generate a concise, friendly weather summary for Paris on 2024-06-01.'',
          [],
          ''Weather conditions:'',
          ''- Temperature: N/A'' @ degree @ ''F'',
          ''- Feels like: N/A'' @ degree @ ''F'',
          ''- Conditions: N/A'',
          ''- Humidity: N/A%'',
          ''- Wind: N/A mph  (N/A'' @ degree @ '')'',
          ''- Visibility: N/A miles'',
          ''- Pressure: N/A mb'',
          ''- UV Index: N/A'',
          ''- Cloud Cover: N/A%'',
          ''- Precipitation: N/A mm'',
          ''- Time of Day: Nighttime'',
          [],
          ''Location: N/A, N/A, N/A'',
          ''Coordinates: N/A, N/A'',
          ''Timezone: N/A'',
          [],
          ''User notes: picnic'',
          [],
          ''Please provide a 3-4 sentence summary that's conversational and helpful for planning outdoor activities, including insights about the weather conditions and any notable factors.''])"
  by (simp add: null_record_def bare_record_def build_prompt_def dict_get_def
      prompt_lines_def slot_def time_of_day_def user_notes_def)

subsection \<open>The channel\<close>

lemma sent_append: "sent (a @ b) = sent a @ sent b"
  by (induction a rule: sent.induct) simp_all

lemma ws_step:
  "snd (on_message e st m) = None \<Longrightarrow>
   websocket_endpoint e st (Message m # evs) =
     (fst (on_message e st m) @ fst (websocket_endpoint e st evs),
      snd (websocket_endpoint e st evs))"
  by (cases "on_message e st m") (simp split: prod.splits)

lemma ws_stop:
  "snd (on_message e st m) = Some x \<Longrightarrow>
   websocket_endpoint e st (Message m # evs) = (fst (on_message e st m), Raised x)"
  by (cases "on_message e st m") simp

lemma on_message_no_key:
  assumes "map_of m ''type'' = Some (PStr ''generate_summary'')"
    and "map_of m ''api_key'' = None"
  shows "on_message e st (PDict m) =
     ([SendText (error_message ''Gemini API key is required'')], None)"
  using assms by (simp add: on_message_def dict_get_def)

text \<open>
  Claim C9. A summary request without \<open>api_key\<close> has one effect, the sending of the
  error message: the store is not read, the text generator is not called, and the loop goes
  on with the events that follow.
\<close>

theorem missing_api_key_yields_one_error:
  assumes "map_of m ''type'' = Some (PStr ''generate_summary'')"
    and "map_of m ''api_key'' = None"
  shows "websocket_endpoint e st (Message (PDict m) # evs) =
     (SendText (error_message ''Gemini API key is required'')
        # fst (websocket_endpoint e st evs),
      snd (websocket_endpoint e st evs))"
  using ws_step[of e st "PDict m" evs] on_message_no_key[OF assms, of e st] by simp

text \<open>
  The request without key, on the Paris store.
\<close>

theorem missing_api_key_yields_one_error_witness:
  "websocket_endpoint paris_env paris_store [Message keyless_request] =
     ([SendText [(''type'', PStr ''summary_error''), (''error'', PStr ''Gemini API key is required'')]],
      Awaiting)"
  using missing_api_key_yields_one_error[of
      "[(''type'', PStr ''generate_summary''), (''weather_id'', PStr ''0b0e8f8e-1'')]"
      paris_env paris_store "[]"]
  by (simp add: keyless_request_def error_message_def)

lemma generate_fails:
  assumes "genai_configure e key = Some msg \<or>
     (genai_configure e key = None \<and> build_prompt (format_value e) r = Inr p
        \<and> generate_content e key p = Inl msg)"
  shows "snd (generate_weather_summary e r key) =
     Inl (Exception (''Error generating summary: '' @ msg))"
  using assms by (auto simp: generate_weather_summary_def summary_failure_def)

lemma generate_effects_no_send: "sent (fst (generate_weather_summary e r key)) = []"
  by (simp add: generate_weather_summary_def split: option.splits sum.splits)

lemma on_message_found:
  assumes "map_of m ''type'' = Some (PStr ''generate_summary'')"
    and "map_of m ''api_key'' = Some key" and "truthy key"
    and "map_of m ''weather_id'' = Some (PStr k)" and "st k = Some r"
  shows "snd (on_message e st (PDict m)) = None \<and>
     sent (fst (on_message e st (PDict m))) =
       [case snd (generate_weather_summary e r key) of
          Inr summary \<Rightarrow> result_message summary (PStr k)
        | Inl x \<Rightarrow> error_message (str_exn (describe e) x)]"
proof -
  obtain a b where g: "generate_weather_summary e r key = (a, b)"
    by (cases "generate_weather_summary e r key")
  have "sent a = []" using generate_effects_no_send[of e r key] g by simp
  with assms g show ?thesis
    by (auto simp: on_message_def dict_get_def sent_append Let_def split: sum.splits)
qed

text \<open>
  Claim C7. A summary request with a key and the identifier of a stored record, whose
  text generation raises (in the set-up or in the call) with the text \<open>msg\<close>, is answered
  by one message: the error message whose text is \<open>Error generating summary:\<close> followed
  by \<open>msg\<close>. No result message is sent for it, and the loop goes on.
\<close>

theorem failing_generation_yields_one_error:
  assumes "map_of m ''type'' = Some (PStr ''generate_summary'')"
    and "map_of m ''api_key'' = Some key" and "truthy key"
    and "map_of m ''weather_id'' = Some (PStr k)" and "st k = Some r"
    and "genai_configure e key = Some msg \<or>
      (genai_configure e key = None \<and> build_prompt (format_value e) r = Inr p
         \<and> generate_content e key p = Inl msg)"
  shows "sent (fst (websocket_endpoint e st (Message (PDict m) # evs))) =
       error_message (''Error generating summary: '' @ msg)
         # sent (fst (websocket_endpoint e st evs))
     \<and> snd (websocket_endpoint e st (Message (PDict m) # evs)) =
       snd (websocket_endpoint e st evs)"
proof -
  have f: "snd (generate_weather_summary e r key) =
      Inl (Exception (''Error generating summary: '' @ msg))"
    using generate_fails[OF assms(6)] .
  have o: "snd (on_message e st (PDict m)) = None"
    and s: "sent (fst (on_message e st (PDict m))) =
      [error_message (''Error generating summary: '' @ msg)]"
    using on_message_found[of m key k st r e] assms(1-5) f by simp_all
  show ?thesis using ws_step[OF o, of evs] s by (simp add: sent_append)
qed

text \<open>
  The Paris record and a text generator that is out of quota.
\<close>

theorem failing_generation_yields_one_error_witness:
  "sent (fst (websocket_endpoint failing_env paris_store [Message summary_request])) =
     [[(''type'', PStr ''summary_error''),
       (''error'', PStr ''Error generating summary: 429 Resource has been exhausted'')]]
   \<and> snd (websocket_endpoint failing_env paris_store [Message summary_request]) = Awaiting"
proof -
  obtain p where b: "build_prompt (format_value failing_env) paris_record = Inr p"
    by (simp add: build_prompt_def paris_record_def dict_get_def)
  have g: "genai_configure failing_env (PStr ''gemini-key'') = None \<and>
      build_prompt (format_value failing_env) paris_record = Inr p \<and>
      generate_content failing_env (PStr ''gemini-key'') p = Inl ''429 Resource has been exhausted''"
    using b by (simp add: failing_env_def paris_env_def configured_def answers_def)
  show ?thesis
    using failing_generation_yields_one_error[of
        "[(''type'', PStr ''generate_summary''), (''weather_id'', PStr ''0b0e8f8e-1''),
            (''api_key'', PStr ''gemini-key'')]" "PStr ''gemini-key''" "''0b0e8f8e-1''"
        paris_store paris_record failing_env "''429 Resource has been exhausted''" p "[]"] g
    by (simp add: summary_request_def paris_store_eq error_message_def)
qed

lemma generate_empty:
  assumes "genai_configure e key = None" and "build_prompt (format_value e) r = Inr p"
    and "generate_content e key p = Inr []"
  shows "generate_weather_summary e r key =
     ([Configure key, GenerateContent key p], Inr fallback_summary)"
  using assms by (simp add: generate_weather_summary_def)

text \<open>
  Claim C3, amended. When the text generator returns the empty text for a summary request
  on a stored record, \<open>generate_weather_summary\<close> returns the fixed phrase as the summary:
  the one message sent is a result message whose summary is that phrase, and the loop goes
  on with the events that follow.
\<close>

theorem empty_output_yields_fallback_result:
  assumes "map_of m ''type'' = Some (PStr ''generate_summary'')"
    and "map_of m ''api_key'' = Some key" and "truthy key"
    and "map_of m ''weather_id'' = Some (PStr k)" and "st k = Some r"
    and "genai_configure e key = None" and "build_prompt (format_value e) r = Inr p"
    and "generate_content e key p = Inr []"
  shows "sent (fst (websocket_endpoint e st (Message (PDict m) # evs))) =
       result_message fallback_summary (PStr k) # sent (fst (websocket_endpoint e st evs))
     \<and> snd (websocket_endpoint e st (Message (PDict m) # evs)) =
       snd (websocket_endpoint e st evs)"
proof -
  have f: "snd (generate_weather_summary e r key) = Inr fallback_summary"
    using generate_empty[OF assms(6-8)] by simp
  have o: "snd (on_message e st (PDict m)) = None"
    and s: "sent (fst (on_message e st (PDict m))) = [result_message fallback_summary (PStr k)]"
    using on_message_found[of m key k st r e] assms(1-5) f by simp_all
  show ?thesis using ws_step[OF o, of evs] s by (simp add: sent_append)
qed

text \<open>
  The Paris record and a text generator without words, then a second request.
\<close>

theorem empty_output_yields_fallback_result_witness:
  "sent (fst (websocket_endpoint silent_env paris_store [Message summary_request, Message keyless_request])) =
     [result_message fallback_summary (PStr ''0b0e8f8e-1''),
      error_message ''Gemini API key is required'']
   \<and> snd (websocket_endpoint silent_env paris_store [Message summary_request, Message keyless_request]) = Awaiting"
proof -
  obtain p where b: "build_prompt (format_value silent_env) paris_record = Inr p"
    by (simp add: build_prompt_def paris_record_def dict_get_def)
  have g: "genai_configure silent_env (PStr ''gemini-key'') = None"
      "generate_content silent_env (PStr ''gemini-key'') p = Inr []"
    by (simp_all add: silent_env_def paris_env_def configured_def answers_def)
  have k: "websocket_endpoint silent_env paris_store [Message keyless_request] =
     ([SendText (error_message ''Gemini API key is required'')], Awaiting)"
    by (simp add: keyless_request_def on_message_def dict_get_def)
  show ?thesis
    using empty_output_yields_fallback_result[of
        "[(''type'', PStr ''generate_summary''), (''weather_id'', PStr ''0b0e8f8e-1''),
            (''api_key'', PStr ''gemini-key'')]" "PStr ''gemini-key''" "''0b0e8f8e-1''"
        paris_store paris_record silent_env p "[Message keyless_request]"] g b k
    by (simp add: summary_request_def paris_store_eq)
qed

text \<open>
  Claim C3 as stated fails: the message sent for an empty output is a
  \<open>summary_result\<close>, not a \<open>summary_error\<close>.
\<close>

theorem empty_output_counterexample:
  "sent (fst (websocket_endpoint silent_env paris_store [Message summary_request])) =
     [[(''type'', PStr ''summary_result''),
       (''summary'', PStr ''Unable to generate weather summary at this time.''),
       (''weather_id'', PStr ''0b0e8f8e-1'')]]
   \<and> sent (fst (websocket_endpoint silent_env paris_store [Message summary_request])) \<noteq>
     [[(''type'', PStr ''summary_error''),
       (''error'', PStr ''Unable to generate weather summary at this time.'')]]"
proof -
  obtain p where b: "build_prompt scenario_format paris_record = Inr p"
    by (simp add: build_prompt_def paris_record_def dict_get_def)
  then show ?thesis
    by (simp add: summary_request_def paris_store_eq on_message_def dict_get_def
      generate_weather_summary_def silent_env_def paris_env_def configured_def answers_def
      result_message_def fallback_summary_def Let_def)
qed

lemma lookup_hashable: "hashable v \<Longrightarrow> \<exists>r. lookup v st = Inr r"
  by (cases v) simp_all

lemma on_message_answerable:
  assumes "answerable m"
  shows "snd (on_message e st m) = None \<and>
     length (sent (fst (on_message e st m))) = (if is_summary_request m then 1 else 0)"
proof (cases m)
  case (PDict d)
  show ?thesis
  proof (cases "is_summary_request m \<and> truthy (dict_get d ''api_key'' PNone)")
    case True
    with assms PDict have "hashable (dict_get d ''weather_id'' PNone)"
      by (simp add: answerable_def)
    from lookup_hashable[OF this, of st] obtain r
      where l: "lookup (dict_get d ''weather_id'' PNone) st = Inr r" by auto
    show ?thesis
    proof (cases r)
      case None
      with l True PDict show ?thesis
        by (simp add: on_message_def is_summary_request_def)
    next
      case (Some w)
      obtain a b where g: "generate_weather_summary e w (dict_get d ''api_key'' PNone) = (a, b)"
        by (cases "generate_weather_summary e w (dict_get d ''api_key'' PNone)")
      have "sent a = []"
        using generate_effects_no_send[of e w "dict_get d ''api_key'' PNone"] g by simp
      with Some l True PDict g show ?thesis
        by (auto simp: on_message_def is_summary_request_def sent_append Let_def
              split: sum.splits)
    qed
  next
    case False
    with PDict show ?thesis
      by (auto simp: on_message_def is_summary_request_def)
  qed
qed (use assms in \<open>simp_all add: answerable_def\<close>)

lemma ws_answerable:
  assumes "\<forall>m \<in> set ms. answerable m"
  shows "websocket_endpoint e st (map Message ms @ evs) =
     (concat (map (\<lambda>m. fst (on_message e st m)) ms) @ fst (websocket_endpoint e st evs),
      snd (websocket_endpoint e st evs))"
  using assms
proof (induction ms)
  case Nil
  then show ?case by simp
next
  case (Cons m ms)
  then have a: "answerable m" and IH: "websocket_endpoint e st (map Message ms @ evs) =
     (concat (map (\<lambda>m. fst (on_message e st m)) ms) @ fst (websocket_endpoint e st evs),
      snd (websocket_endpoint e st evs))" by simp_all
  have o: "snd (on_message e st m) = None" using on_message_answerable[OF a] by simp
  show ?case using ws_step[OF o, of "map Message ms @ evs"] IH by simp
qed

lemma on_message_non_object:
  "(\<forall>d. v \<noteq> PDict d) \<Longrightarrow> on_message e st v = ([], Some (AttributeError v))"
  by (cases v) (simp_all add: on_message_def)

lemma lookup_unhashable: "\<not> hashable v \<Longrightarrow> lookup v st = Inl (TypeError Unhashable v)"
  by (cases v) simp_all

lemma on_message_unhashable:
  assumes "is_summary_request (PDict d)" and "truthy (dict_get d ''api_key'' PNone)"
    and "\<not> hashable (dict_get d ''weather_id'' PNone)"
  shows "on_message e st (PDict d) =
     ([StoreAccess (dict_get d ''weather_id'' PNone)],
      Some (TypeError Unhashable (dict_get d ''weather_id'' PNone)))"
  using assms lookup_unhashable[OF assms(3), of st]
  by (simp add: on_message_def is_summary_request_def Let_def)

lemma on_message_other_kind:
  "\<not> is_summary_request (PDict d) \<Longrightarrow> on_message e st (PDict d) = ([], None)"
  by (simp add: on_message_def is_summary_request_def)

lemma on_message_reply:
  assumes "answerable m" and "is_summary_request m"
  shows "\<exists>x. sent (fst (on_message e st m)) = [x]
     \<and> ((\<exists>t. x = error_message t) \<or> (\<exists>s w. x = result_message s w))"
proof (cases m)
  case (PDict d)
  let ?key = "dict_get d ''api_key'' PNone" and ?wid = "dict_get d ''weather_id'' PNone"
  from assms(2) PDict have ty: "dict_get d ''type'' PNone = PStr ''generate_summary''"
    by (simp add: is_summary_request_def)
  show ?thesis
  proof (cases "truthy ?key")
    case False
    with ty PDict show ?thesis by (auto simp: on_message_def)
  next
    case True
    with assms PDict have "hashable ?wid" by (simp add: answerable_def)
    from lookup_hashable[OF this, of st] obtain r where l: "lookup ?wid st = Inr r" by auto
    show ?thesis
    proof (cases r)
      case None
      with l True ty PDict show ?thesis by (auto simp: on_message_def)
    next
      case (Some w)
      obtain a b where g: "generate_weather_summary e w ?key = (a, b)"
        by (cases "generate_weather_summary e w ?key")
      have "sent a = []" using generate_effects_no_send[of e w ?key] g by simp
      with Some l True ty PDict g show ?thesis
        by (cases b) (auto simp: on_message_def sent_append Let_def)
    qed
  qed
qed (use assms in \<open>simp_all add: answerable_def\<close>)

lemma sent_concat:
  "sent (concat (map f ms)) = concat (map (\<lambda>m. sent (f m)) ms)"
  by (induction ms) (simp_all add: sent_append)

text \<open>
  Claim C4, amended. As long as every text received decodes to a JSON object (whose
  \<open>weather_id\<close> can be hashed when it asks for a summary with a key), the handler stays
  in its loop, and what it has sent is what the messages were answered with, in order: a
  summary request by exactly one message, an error or a result, a message of another kind
  by nothing at all. After such messages the session ends with the client's disconnect or
  with a failure of the receive, and nothing more is done for it. It also ends, by an
  exception that nothing catches and with nothing sent for that text, at a text that is no
  JSON, at a JSON value that is no object, and at a summary request with a key whose
  \<open>weather_id\<close> cannot be hashed; the events behind it are not read.
\<close>

theorem answerable_messages_keep_session_open:
  assumes "\<forall>m \<in> set ms. answerable m"
  shows "snd (websocket_endpoint e st (map Message ms)) = Awaiting
     \<and> sent (fst (websocket_endpoint e st (map Message ms))) =
         concat (map (\<lambda>m. sent (fst (on_message e st m))) ms)
     \<and> (\<forall>m \<in> set ms.
          if is_summary_request m
          then \<exists>x. sent (fst (on_message e st m)) = [x]
                 \<and> ((\<exists>t. x = error_message t) \<or> (\<exists>s w. x = result_message s w))
          else fst (on_message e st m) = [])
     \<and> websocket_endpoint e st (map Message ms @ WebSocketDisconnect # evs) =
         (fst (websocket_endpoint e st (map Message ms)), Disconnected)
     \<and> websocket_endpoint e st (map Message ms @ ReceiveFailed s # evs) =
         (fst (websocket_endpoint e st (map Message ms)), Raised (Exception s))
     \<and> websocket_endpoint e st (map Message ms @ InvalidJson s # evs) =
         (fst (websocket_endpoint e st (map Message ms)), Raised (Exception s))
     \<and> ((\<forall>d. v \<noteq> PDict d) \<longrightarrow>
          websocket_endpoint e st (map Message ms @ Message v # evs) =
            (fst (websocket_endpoint e st (map Message ms)), Raised (AttributeError v)))
     \<and> (is_summary_request (PDict d) \<and> truthy (dict_get d ''api_key'' PNone)
          \<and> \<not> hashable (dict_get d ''weather_id'' PNone) \<longrightarrow>
          websocket_endpoint e st (map Message ms @ Message (PDict d) # evs) =
            (fst (websocket_endpoint e st (map Message ms))
               @ [StoreAccess (dict_get d ''weather_id'' PNone)],
             Raised (TypeError Unhashable (dict_get d ''weather_id'' PNone))))"
proof -
  let ?T = "concat (map (\<lambda>m. fst (on_message e st m)) ms)"
  have T: "fst (websocket_endpoint e st (map Message ms)) = ?T"
    using ws_answerable[OF assms, of e st "[]"] by simp
  have 1: "snd (websocket_endpoint e st (map Message ms)) = Awaiting"
    using ws_answerable[OF assms, of e st "[]"] by simp
  have 2: "sent (fst (websocket_endpoint e st (map Message ms))) =
         concat (map (\<lambda>m. sent (fst (on_message e st m))) ms)"
    by (simp only: T sent_concat)
  have 3: "\<forall>m \<in> set ms.
          if is_summary_request m
          then \<exists>x. sent (fst (on_message e st m)) = [x]
                 \<and> ((\<exists>t. x = error_message t) \<or> (\<exists>s w. x = result_message s w))
          else fst (on_message e st m) = []"
  proof
    fix m assume m: "m \<in> set ms"
    with assms have a: "answerable m" by simp
    show "if is_summary_request m
          then \<exists>x. sent (fst (on_message e st m)) = [x]
                 \<and> ((\<exists>t. x = error_message t) \<or> (\<exists>s w. x = result_message s w))
          else fst (on_message e st m) = []"
    proof (cases "is_summary_request m")
      case True
      with on_message_reply[OF a True, of e st] show ?thesis by simp
    next
      case False
      from a obtain d where "m = PDict d" by (cases m) (simp_all add: answerable_def)
      with False on_message_other_kind[of d e st] show ?thesis by simp
    qed
  qed
  have 4: "websocket_endpoint e st (map Message ms @ WebSocketDisconnect # evs) =
         (fst (websocket_endpoint e st (map Message ms)), Disconnected)"
    using ws_answerable[OF assms, of e st "WebSocketDisconnect # evs"] T by simp
  have 5: "websocket_endpoint e st (map Message ms @ ReceiveFailed s # evs) =
         (fst (websocket_endpoint e st (map Message ms)), Raised (Exception s))"
    using ws_answerable[OF assms, of e st "ReceiveFailed s # evs"] T by simp
  have 6: "websocket_endpoint e st (map Message ms @ InvalidJson s # evs) =
         (fst (websocket_endpoint e st (map Message ms)), Raised (Exception s))"
    using ws_answerable[OF assms, of e st "InvalidJson s # evs"] T by simp
  have 7: "(\<forall>d. v \<noteq> PDict d) \<longrightarrow>
          websocket_endpoint e st (map Message ms @ Message v # evs) =
            (fst (websocket_endpoint e st (map Message ms)), Raised (AttributeError v))"
  proof
    assume "\<forall>d. v \<noteq> PDict d"
    from on_message_non_object[OF this, of e st]
    have "websocket_endpoint e st (Message v # evs) = ([], Raised (AttributeError v))"
      using ws_stop[of e st v "AttributeError v" evs] by simp
    then show "websocket_endpoint e st (map Message ms @ Message v # evs) =
            (fst (websocket_endpoint e st (map Message ms)), Raised (AttributeError v))"
      using ws_answerable[OF assms, of e st "Message v # evs"] T by simp
  qed
  have 8: "is_summary_request (PDict d) \<and> truthy (dict_get d ''api_key'' PNone)
          \<and> \<not> hashable (dict_get d ''weather_id'' PNone) \<longrightarrow>
          websocket_endpoint e st (map Message ms @ Message (PDict d) # evs) =
            (fst (websocket_endpoint e st (map Message ms))
               @ [StoreAccess (dict_get d ''weather_id'' PNone)],
             Raised (TypeError Unhashable (dict_get d ''weather_id'' PNone)))"
  proof
    assume h: "is_summary_request (PDict d) \<and> truthy (dict_get d ''api_key'' PNone)
          \<and> \<not> hashable (dict_get d ''weather_id'' PNone)"
    then have o: "on_message e st (PDict d) =
       ([StoreAccess (dict_get d ''weather_id'' PNone)],
        Some (TypeError Unhashable (dict_get d ''weather_id'' PNone)))"
      using on_message_unhashable[of d e st] by simp
    have "websocket_endpoint e st (Message (PDict d) # evs) =
       ([StoreAccess (dict_get d ''weather_id'' PNone)],
        Raised (TypeError Unhashable (dict_get d ''weather_id'' PNone)))"
      using ws_stop[of e st "PDict d" "TypeError Unhashable (dict_get d ''weather_id'' PNone)" evs] o
      by simp
    then show "websocket_endpoint e st (map Message ms @ Message (PDict d) # evs) =
            (fst (websocket_endpoint e st (map Message ms))
               @ [StoreAccess (dict_get d ''weather_id'' PNone)],
             Raised (TypeError Unhashable (dict_get d ''weather_id'' PNone)))"
      using ws_answerable[OF assms, of e st "Message (PDict d) # evs"] T by simp
  qed
  from 1 2 3 4 5 6 7 8 show ?thesis by blast
qed

text \<open>
  A request that fails, a message of another kind and a request without key; then a
  disconnect, or a JSON string.
\<close>

theorem answerable_messages_keep_session_open_witness:
  "answerable summary_request \<and> answerable ping \<and> answerable keyless_request
   \<and> snd (websocket_endpoint failing_env paris_store
        (map Message [summary_request, ping, keyless_request])) = Awaiting
   \<and> sent (fst (websocket_endpoint failing_env paris_store
        (map Message [summary_request, ping, keyless_request]))) =
      [error_message ''Error generating summary: 429 Resource has been exhausted'',
       error_message ''Gemini API key is required'']
   \<and> snd (websocket_endpoint failing_env paris_store
        (map Message [summary_request, ping, keyless_request]
           @ [WebSocketDisconnect, Message summary_request])) =
      Disconnected
   \<and> snd (websocket_endpoint failing_env paris_store
        (map Message [summary_request, ping, keyless_request]
           @ [Message (PStr ''hello''), Message summary_request])) =
      Raised (AttributeError (PStr ''hello''))"
proof -
  have a: "answerable summary_request" "answerable ping" "answerable keyless_request"
    by (simp_all add: answerable_def is_summary_request_def summary_request_def ping_def
        keyless_request_def dict_get_def)
  then have b: "\<forall>m \<in> set [summary_request, ping, keyless_request]. answerable m" by simp
  obtain p where bp: "build_prompt (format_value failing_env) paris_record = Inr p"
    by (simp add: build_prompt_def paris_record_def dict_get_def)
  have g: "generate_weather_summary failing_env paris_record (PStr ''gemini-key'') =
      ([Configure (PStr ''gemini-key''), GenerateContent (PStr ''gemini-key'') p],
       Inl (Exception ''Error generating summary: 429 Resource has been exhausted''))"
    using bp by (simp add: generate_weather_summary_def failing_env_def paris_env_def
        configured_def answers_def summary_failure_def)
  have s1: "sent (fst (on_message failing_env paris_store summary_request)) =
      [error_message ''Error generating summary: 429 Resource has been exhausted'']"
    using g by (simp add: on_message_def summary_request_def dict_get_def paris_store_eq Let_def)
  have s2: "sent (fst (on_message failing_env paris_store ping)) = []"
    by (simp add: on_message_def ping_def dict_get_def)
  have s3: "sent (fst (on_message failing_env paris_store keyless_request)) =
      [error_message ''Gemini API key is required'']"
    by (simp add: on_message_def keyless_request_def dict_get_def)
  have n: "\<forall>d. PStr ''hello'' \<noteq> PDict d" by simp
  show ?thesis
    using answerable_messages_keep_session_open[OF b, where e = failing_env
        and st = paris_store and evs = "[Message summary_request]" and v = "PStr ''hello''"]
      a s1 s2 s3 n
    by simp
qed

text \<open>
  Claim C4 as stated fails: a text that is no JSON, a JSON value that is no object, or a
  summary request that names the record by a list raises out of the handler before anything
  is sent, and the messages behind it are never read.
\<close>

theorem invalid_json_counterexample:
  "websocket_endpoint paris_env paris_store
      [InvalidJson ''Expecting value: line 1 column 1 (char 0)'', Message summary_request] =
     ([], Raised (Exception ''Expecting value: line 1 column 1 (char 0)''))
   \<and> websocket_endpoint paris_env paris_store [Message (PList []), Message summary_request] =
     ([], Raised (AttributeError (PList [])))
   \<and> websocket_endpoint paris_env paris_store [Message unhashable_request, Message summary_request] =
     ([StoreAccess (PList [])], Raised (TypeError Unhashable (PList [])))"
  by (simp add: on_message_def unhashable_request_def dict_get_def Let_def)

end
